theory Spec2Isabelle
  imports Complex_Main "HOL-Library.Log_Nat"
begin

section \<open>JavaScript numbers\<close>

text \<open>
  The component (\<^verbatim>\<open>src/components/Scrollbar/index.tsx\<close>) computes with the
  JavaScript type \<^verbatim>\<open>number\<close>. A number is modelled as an exact real or one of the
  three special values of IEEE 754, so that a division by zero is a value of the model as
  it is a value of the program: \<^verbatim>\<open>0/0\<close> is \<^verbatim>\<open>NaN\<close>, \<^verbatim>\<open>1/0\<close> is
  \<^verbatim>\<open>Infinity\<close>. Two things are idealised: finite results are exact (no rounding to
  binary64 and no overflow), and zero has no sign. Where the last bit decides a statement
  (an exact equality, a floor), this does not do: the section on binary64 arithmetic below
  rounds every operation, and the handlers concerned are given a second time over it. The
  only divisors in the component are
  \<^verbatim>\<open>scrollHeight\<close> and \<^verbatim>\<open>clientHeight\<close> of DOM elements (never negative,
  hence never \<^verbatim>\<open>-0\<close>) and \<^verbatim>\<open>thumbHeight\<close>, \<^verbatim>\<open>2\<close> (never zero), so the sign of
  zero decides no division here.
\<close>

datatype jsnum = Fin real | PInf | NInf | NaN

fun js_neg :: "jsnum \<Rightarrow> jsnum" where
  "js_neg (Fin x) = Fin (- x)"
| "js_neg PInf = NInf"
| "js_neg NInf = PInf"
| "js_neg NaN = NaN"

fun js_add :: "jsnum \<Rightarrow> jsnum \<Rightarrow> jsnum" where
  "js_add NaN _ = NaN"
| "js_add _ NaN = NaN"
| "js_add (Fin x) (Fin y) = Fin (x + y)"
| "js_add PInf NInf = NaN"
| "js_add NInf PInf = NaN"
| "js_add PInf _ = PInf"
| "js_add NInf _ = NInf"
| "js_add _ PInf = PInf"
| "js_add _ NInf = NInf"

definition js_sub :: "jsnum \<Rightarrow> jsnum \<Rightarrow> jsnum" where
  "js_sub a b = js_add a (js_neg b)"

fun js_mul :: "jsnum \<Rightarrow> jsnum \<Rightarrow> jsnum" where
  "js_mul NaN _ = NaN"
| "js_mul _ NaN = NaN"
| "js_mul (Fin x) (Fin y) = Fin (x * y)"
| "js_mul (Fin x) PInf = (if x = 0 then NaN else if 0 < x then PInf else NInf)"
| "js_mul (Fin x) NInf = (if x = 0 then NaN else if 0 < x then NInf else PInf)"
| "js_mul PInf (Fin y) = (if y = 0 then NaN else if 0 < y then PInf else NInf)"
| "js_mul NInf (Fin y) = (if y = 0 then NaN else if 0 < y then NInf else PInf)"
| "js_mul PInf PInf = PInf"
| "js_mul PInf NInf = NInf"
| "js_mul NInf PInf = NInf"
| "js_mul NInf NInf = PInf"

fun js_div :: "jsnum \<Rightarrow> jsnum \<Rightarrow> jsnum" where
  "js_div NaN _ = NaN"
| "js_div _ NaN = NaN"
| "js_div (Fin x) (Fin y) =
     (if y = 0 then (if x = 0 then NaN else if 0 < x then PInf else NInf)
      else Fin (x / y))"
| "js_div (Fin x) PInf = Fin 0"
| "js_div (Fin x) NInf = Fin 0"
| "js_div PInf (Fin y) = (if 0 \<le> y then PInf else NInf)"
| "js_div NInf (Fin y) = (if 0 \<le> y then NInf else PInf)"
| "js_div PInf PInf = NaN"
| "js_div PInf NInf = NaN"
| "js_div NInf PInf = NaN"
| "js_div NInf NInf = NaN"

text \<open>\<^verbatim>\<open>Math.min\<close>, \<^verbatim>\<open>Math.max\<close> and \<^verbatim>\<open>Math.floor\<close>: \<^verbatim>\<open>NaN\<close> is contagious.\<close>

fun js_min :: "jsnum \<Rightarrow> jsnum \<Rightarrow> jsnum" where
  "js_min NaN _ = NaN"
| "js_min _ NaN = NaN"
| "js_min (Fin x) (Fin y) = Fin (min x y)"
| "js_min NInf _ = NInf"
| "js_min _ NInf = NInf"
| "js_min PInf b = b"
| "js_min a PInf = a"

fun js_max :: "jsnum \<Rightarrow> jsnum \<Rightarrow> jsnum" where
  "js_max NaN _ = NaN"
| "js_max _ NaN = NaN"
| "js_max (Fin x) (Fin y) = Fin (max x y)"
| "js_max PInf _ = PInf"
| "js_max _ PInf = PInf"
| "js_max NInf b = b"
| "js_max a NInf = a"

fun js_floor :: "jsnum \<Rightarrow> jsnum" where
  "js_floor (Fin x) = Fin (of_int \<lfloor>x\<rfloor>)"
| "js_floor PInf = PInf"
| "js_floor NInf = NInf"
| "js_floor NaN = NaN"

text \<open>
  \<^verbatim>\<open>ToNumber\<close> of a value of type \<^verbatim>\<open>number | null\<close>: in arithmetic \<^verbatim>\<open>null\<close>
  is \<^verbatim>\<open>0\<close>.
\<close>

fun toNumber :: "real option \<Rightarrow> jsnum" where
  "toNumber None = Fin 0"
| "toNumber (Some x) = Fin x"

section \<open>The DOM as the component sees it\<close>

text \<open>
  The component reads four properties of the content element and one of the track, all
  finite numbers that the browser supplies. It reads nothing of the thumb element. A ref
  (\<^verbatim>\<open>useRef<HTMLDivElement>(null)\<close>) holds an element or \<^verbatim>\<open>null\<close>.
\<close>

record content_el =
  scrollTop :: real
  scrollHeight :: real
  clientHeight :: real
  offsetHeight :: real

record track_el =
  track_clientHeight :: real

datatype thumb_el = ThumbEl

record refs =
  contentRef :: "content_el option"
  scrollTrackRef :: "track_el option"
  scrollThumbRef :: "thumb_el option"

text \<open>
  A mouse event: \<^verbatim>\<open>e.clientY\<close> and, for a click on the track,
  \<^verbatim>\<open>e.target.getBoundingClientRect().top\<close>.
\<close>

record mouse_event =
  clientY :: real
  target_top :: real

text \<open>
  What a handler does to its surroundings: the calls and assignments it makes, in order.
  What the browser then does with them (clamping an assigned \<^verbatim>\<open>scrollTop\<close>, animating
  a smooth scroll, parsing the string \<^verbatim>\<open>`${newTop}px`\<close>) is not part of the component.
\<close>

datatype dom_effect =
    PreventDefault
  | StopPropagation
  | SetThumbStyleTop jsnum
  | SetContentScrollTop jsnum
  | ContentScrollTo jsnum
  | ContentScrollBy jsnum

datatype js_error = TypeError

section \<open>The component's state and handlers\<close>

text \<open>The four \<^verbatim>\<open>useState\<close> cells, with their initial values.\<close>

record scrollbar_state =
  thumbHeight :: jsnum
  scrollStartPosition :: "real option"
  initialScrollTop :: real
  isDragging :: bool

definition initial_state :: scrollbar_state where
  "initial_state =
     \<lparr>thumbHeight = Fin 20, scrollStartPosition = None, initialScrollTop = 0,
      isDragging = False\<rparr>"

text \<open>
  \<^verbatim>\<open>handleResize(ref, trackSize)\<close>: reads the content element and sets
  \<^verbatim>\<open>thumbHeight\<close>.
\<close>

definition handleResize :: "content_el \<Rightarrow> real \<Rightarrow> scrollbar_state \<Rightarrow> scrollbar_state" where
  "handleResize ref trackSize st =
     st\<lparr>thumbHeight :=
          js_max (js_mul (js_div (Fin (clientHeight ref)) (Fin (scrollHeight ref)))
                         (Fin trackSize))
                 (Fin 20)\<rparr>"

text \<open>
  \<^verbatim>\<open>handleScrollButton(direction)\<close>: a plain function of the component, it reads
  only the content ref.
\<close>

datatype direction = up | down

definition handleScrollButton :: "refs \<Rightarrow> direction \<Rightarrow> dom_effect list" where
  "handleScrollButton r direction =
     (case contentRef r of
        None \<Rightarrow> []
      | Some current \<Rightarrow>
          (let scrollAmount = (if direction = down then Fin 200 else Fin (- 200))
           in [ContentScrollBy scrollAmount]))"

text \<open>
  The handlers made with \<^verbatim>\<open>useCallback\<close> are closures: each reads the state
  variables of the render that created it. The first argument \<open>cl\<close> of such a handler
  is that captured state; which render it comes from is decided by \<open>useCallback\<close>
  below, not by the handler.

  \<^verbatim>\<open>handleThumbPosition\<close> returns early unless all three refs hold an element.
\<close>

definition handleThumbPosition :: "scrollbar_state \<Rightarrow> refs \<Rightarrow> dom_effect list" where
  "handleThumbPosition cl r =
     (case contentRef r of
        None \<Rightarrow> []
      | Some content \<Rightarrow>
     (case scrollThumbRef r of
        None \<Rightarrow> []
      | Some thumb \<Rightarrow>
     (case scrollTrackRef r of
        None \<Rightarrow> []
      | Some track \<Rightarrow>
          (let contentTop = Fin (scrollTop content);
               contentHeight = Fin (scrollHeight content);
               trackHeight = Fin (track_clientHeight track);
               newTop = js_mul (js_div contentTop contentHeight) trackHeight;
               newTop = js_min newTop (js_sub trackHeight (thumbHeight cl))
           in [SetThumbStyleTop newTop]))))"

definition handleTrackClick :: "scrollbar_state \<Rightarrow> refs \<Rightarrow> mouse_event \<Rightarrow> dom_effect list" where
  "handleTrackClick cl r e =
     [PreventDefault, StopPropagation] @
     (case scrollTrackRef r of
        None \<Rightarrow> []
      | Some trackCurrent \<Rightarrow>
     (case contentRef r of
        None \<Rightarrow> []
      | Some contentCurrent \<Rightarrow>
          (let trackTop = Fin (target_top e);
               thumbOffset = js_neg (js_div (thumbHeight cl) (Fin 2));
               clickRatio =
                 js_div (js_add (js_sub (Fin (clientY e)) trackTop) thumbOffset)
                        (Fin (track_clientHeight trackCurrent));
               scrollAmount =
                 js_floor (js_mul clickRatio (Fin (scrollHeight contentCurrent)))
           in [ContentScrollTo scrollAmount])))"

text \<open>
  \<^verbatim>\<open>handleThumbMousedown\<close> reads no state variable; it sets three of them. The
  second component of the result lists what it does to the event.
\<close>

definition handleThumbMousedown ::
  "refs \<Rightarrow> mouse_event \<Rightarrow> scrollbar_state \<Rightarrow> scrollbar_state \<times> dom_effect list" where
  "handleThumbMousedown r e st =
     (let st = st\<lparr>scrollStartPosition := Some (clientY e)\<rparr>;
          st = (case contentRef r of
                  None \<Rightarrow> st
                | Some content \<Rightarrow> st\<lparr>initialScrollTop := scrollTop content\<rparr>);
          st = st\<lparr>isDragging := True\<rparr>
      in (st, [PreventDefault, StopPropagation]))"

definition handleThumbMouseup ::
  "scrollbar_state \<Rightarrow> scrollbar_state \<Rightarrow> scrollbar_state \<times> dom_effect list" where
  "handleThumbMouseup cl st =
     ((if isDragging cl then st\<lparr>isDragging := False\<rparr> else st),
      [PreventDefault, StopPropagation])"

text \<open>
  \<^verbatim>\<open>handleThumbMouseMove\<close>. The local \<^verbatim>\<open>deltaY\<close> is a definition of its own,
  since the specification speaks about it. The handler reads \<^verbatim>\<open>contentRef.current!\<close>
  with no test: destructuring \<^verbatim>\<open>null\<close> throws a \<^verbatim>\<open>TypeError\<close> (\<open>Inl\<close>;
  the two calls on the event that precede the throw are not listed then).
\<close>

definition deltaY :: "scrollbar_state \<Rightarrow> content_el \<Rightarrow> mouse_event \<Rightarrow> jsnum" where
  "deltaY cl content e =
     js_mul (js_sub (Fin (clientY e)) (toNumber (scrollStartPosition cl)))
            (js_div (Fin (offsetHeight content)) (thumbHeight cl))"

definition handleThumbMouseMove ::
  "scrollbar_state \<Rightarrow> refs \<Rightarrow> mouse_event \<Rightarrow> js_error + dom_effect list" where
  "handleThumbMouseMove cl r e =
     (if isDragging cl then
        (case contentRef r of
           None \<Rightarrow> Inl TypeError
         | Some content \<Rightarrow>
             (let contentScrollHeight = Fin (scrollHeight content);
                  contentOffsetHeight = Fin (offsetHeight content);
                  newScrollTop =
                    js_min (js_add (Fin (initialScrollTop cl)) (deltaY cl content e))
                           (js_sub contentScrollHeight contentOffsetHeight)
              in Inr [PreventDefault, StopPropagation, SetContentScrollTop newScrollTop]))
      else Inr [PreventDefault, StopPropagation])"

section \<open>Renders, memoized handlers and events\<close>

text \<open>
  \<^verbatim>\<open>useCallback(f, deps)\<close> returns the closure of an earlier render as long as
  \<open>deps\<close> has not changed, and the closure of the current render otherwise. A closure
  is represented by the state it captured: \<open>prev\<close> is the state the memoized closure
  holds, \<open>cur\<close> the state of the current render.
\<close>

definition useCallback ::
  "(scrollbar_state \<Rightarrow> 'd) \<Rightarrow> scrollbar_state \<Rightarrow> scrollbar_state \<Rightarrow> scrollbar_state" where
  "useCallback deps prev cur = (if deps cur = deps prev then prev else cur)"

text \<open>
  A mounted component: its state, the state captured by each memoized handler that reads
  state, and the \<^verbatim>\<open>trackSize\<close> captured by the mount effect (\<open>None\<close> when the
  effect found the content or the track ref empty and registered nothing).
\<close>

record component =
  cstate :: scrollbar_state
  cb_handleThumbPosition :: scrollbar_state
  cb_handleTrackClick :: scrollbar_state
  cb_handleThumbMouseup :: scrollbar_state
  cb_handleThumbMouseMove :: scrollbar_state
  observing :: "real option"

text \<open>
  A render after a state change, with the dependency lists of the source:
  \<^verbatim>\<open>[]\<close>, \<^verbatim>\<open>[thumbHeight]\<close>, \<^verbatim>\<open>[isDragging]\<close> and
  \<^verbatim>\<open>[isDragging, scrollStartPosition, thumbHeight]\<close>.
\<close>

definition render :: "component \<Rightarrow> component" where
  "render c =
     c\<lparr>cb_handleThumbPosition :=
          useCallback (\<lambda>s. ()) (cb_handleThumbPosition c) (cstate c),
        cb_handleTrackClick :=
          useCallback thumbHeight (cb_handleTrackClick c) (cstate c),
        cb_handleThumbMouseup :=
          useCallback isDragging (cb_handleThumbMouseup c) (cstate c),
        cb_handleThumbMouseMove :=
          useCallback (\<lambda>s. (isDragging s, scrollStartPosition s, thumbHeight s))
            (cb_handleThumbMouseMove c) (cstate c)\<rparr>"

text \<open>
  The first render and the mount effect (dependency list \<^verbatim>\<open>[]\<close>, so it runs once):
  if the content and the track exist it captures the track's \<^verbatim>\<open>clientHeight\<close>,
  observes the content and registers the first render's \<^verbatim>\<open>handleThumbPosition\<close>
  as the scroll listener.
\<close>

definition mount :: "refs \<Rightarrow> component" where
  "mount r =
     \<lparr>cstate = initial_state,
      cb_handleThumbPosition = initial_state,
      cb_handleTrackClick = initial_state,
      cb_handleThumbMouseup = initial_state,
      cb_handleThumbMouseMove = initial_state,
      observing =
        (case contentRef r of
           None \<Rightarrow> None
         | Some ref \<Rightarrow>
        (case scrollTrackRef r of
           None \<Rightarrow> None
         | Some track \<Rightarrow> Some (track_clientHeight track)))\<rparr>"

text \<open>
  The events the component listens to. Each carries what the DOM shows at that moment:
  \<open>Resize\<close> the observed content element, the others the current refs. \<open>MouseUp\<close>
  stands for \<^verbatim>\<open>mouseup\<close> and \<^verbatim>\<open>mouseleave\<close> on the document, which share one
  handler.
\<close>

datatype event =
    Resize content_el
  | Scroll refs
  | TrackClick refs mouse_event
  | ThumbMouseDown refs mouse_event
  | MouseMove refs mouse_event
  | MouseUp
  | ScrollButton refs direction

fun step :: "component \<Rightarrow> event \<Rightarrow> component \<times> (js_error + dom_effect list)" where
  "step c (Resize ref) =
     (case observing c of
        None \<Rightarrow> (c, Inr [])
      | Some trackSize \<Rightarrow>
          (render (c\<lparr>cstate := handleResize ref trackSize (cstate c)\<rparr>), Inr []))"
| "step c (Scroll r) =
     (case observing c of
        None \<Rightarrow> (c, Inr [])
      | Some trackSize \<Rightarrow> (c, Inr (handleThumbPosition (cb_handleThumbPosition c) r)))"
| "step c (TrackClick r e) = (c, Inr (handleTrackClick (cb_handleTrackClick c) r e))"
| "step c (ThumbMouseDown r e) =
     (render (c\<lparr>cstate := fst (handleThumbMousedown r e (cstate c))\<rparr>),
      Inr (snd (handleThumbMousedown r e (cstate c))))"
| "step c (MouseMove r e) = (c, handleThumbMouseMove (cb_handleThumbMouseMove c) r e)"
| "step c MouseUp =
     (render (c\<lparr>cstate := fst (handleThumbMouseup (cb_handleThumbMouseup c) (cstate c))\<rparr>),
      Inr (snd (handleThumbMouseup (cb_handleThumbMouseup c) (cstate c))))"
| "step c (ScrollButton r d) = (c, Inr (handleScrollButton r d))"

fun run :: "component \<Rightarrow> event list \<Rightarrow> component" where
  "run c [] = c"
| "run c (ev # evs) = run (fst (step c ev)) evs"

section \<open>Binary64 arithmetic\<close>

text \<open>
  A JavaScript number is an IEEE 754 binary64 value, and each of \<^verbatim>\<open>+\<close>, \<^verbatim>\<open>-\<close>,
  \<^verbatim>\<open>*\<close>, \<^verbatim>\<open>/\<close> returns the exact result rounded to the nearest binary64 value, ties
  to the one with an even significand. \<open>round64\<close> is that rounding on the reals.
  \<open>binade a\<close> is the exponent \<open>e\<close> with \<open>2 powi e \<le> a < 2 powi (e + 1)\<close>; it is held
  at \<open>-1022\<close> in the subnormal range. The result is the multiple of \<open>2 powi (e - 52)\<close>
  nearest to \<open>x\<close>, and an infinity when that multiple reaches \<open>2 powi 1024\<close>. Zero keeps
  no sign, as before.
\<close>

definition round_half_even :: "real \<Rightarrow> int" where
  "round_half_even m =
     (let f = \<lfloor>m\<rfloor>; d = m - of_int f
      in if d < 1 / 2 then f else if 1 / 2 < d then f + 1
         else if even f then f else f + 1)"

definition binade :: "real \<Rightarrow> int" where
  "binade a = (if 1 \<le> a then bitlen \<lfloor>a\<rfloor> - 1 else - bitlen (\<lceil>1 / a\<rceil> - 1))"

definition round64 :: "real \<Rightarrow> jsnum" where
  "round64 x =
     (if x = 0 then Fin 0
      else
        (let e = max (binade \<bar>x\<bar>) (- 1022);
             ulp = 2 powi (e - 52);
             y = of_int (round_half_even (x / ulp)) * ulp
         in if 2 powi 1024 \<le> y then PInf
            else if y \<le> - (2 powi 1024) then NInf
            else Fin y))"

text \<open>
  The binary64 operations: the special values as in the exact operations above, a finite
  result rounded. Negation, \<^verbatim>\<open>Math.min\<close>, \<^verbatim>\<open>Math.max\<close> and \<^verbatim>\<open>Math.floor\<close> are
  exact on binary64 values and stay as they are.
\<close>

fun round_js :: "jsnum \<Rightarrow> jsnum" where
  "round_js (Fin x) = round64 x"
| "round_js PInf = PInf"
| "round_js NInf = NInf"
| "round_js NaN = NaN"

definition b64_add :: "jsnum \<Rightarrow> jsnum \<Rightarrow> jsnum" where
  "b64_add a b = round_js (js_add a b)"

definition b64_sub :: "jsnum \<Rightarrow> jsnum \<Rightarrow> jsnum" where
  "b64_sub a b = round_js (js_sub a b)"

definition b64_mul :: "jsnum \<Rightarrow> jsnum \<Rightarrow> jsnum" where
  "b64_mul a b = round_js (js_mul a b)"

definition b64_div :: "jsnum \<Rightarrow> jsnum \<Rightarrow> jsnum" where
  "b64_div a b = round_js (js_div a b)"

text \<open>
  \<^verbatim>\<open>handleResize\<close>, \<^verbatim>\<open>handleThumbPosition\<close> and \<^verbatim>\<open>handleTrackClick\<close> once more,
  line by line as above, with every arithmetic operation in binary64.
\<close>

definition handleResize_b64 :: "content_el \<Rightarrow> real \<Rightarrow> scrollbar_state \<Rightarrow> scrollbar_state" where
  "handleResize_b64 ref trackSize st =
     st\<lparr>thumbHeight :=
          js_max (b64_mul (b64_div (Fin (clientHeight ref)) (Fin (scrollHeight ref)))
                          (Fin trackSize))
                 (Fin 20)\<rparr>"

definition handleThumbPosition_b64 :: "scrollbar_state \<Rightarrow> refs \<Rightarrow> dom_effect list" where
  "handleThumbPosition_b64 cl r =
     (case contentRef r of
        None \<Rightarrow> []
      | Some content \<Rightarrow>
     (case scrollThumbRef r of
        None \<Rightarrow> []
      | Some thumb \<Rightarrow>
     (case scrollTrackRef r of
        None \<Rightarrow> []
      | Some track \<Rightarrow>
          (let contentTop = Fin (scrollTop content);
               contentHeight = Fin (scrollHeight content);
               trackHeight = Fin (track_clientHeight track);
               newTop = b64_mul (b64_div contentTop contentHeight) trackHeight;
               newTop = js_min newTop (b64_sub trackHeight (thumbHeight cl))
           in [SetThumbStyleTop newTop]))))"

definition handleTrackClick_b64 :: "scrollbar_state \<Rightarrow> refs \<Rightarrow> mouse_event \<Rightarrow> dom_effect list" where
  "handleTrackClick_b64 cl r e =
     [PreventDefault, StopPropagation] @
     (case scrollTrackRef r of
        None \<Rightarrow> []
      | Some trackCurrent \<Rightarrow>
     (case contentRef r of
        None \<Rightarrow> []
      | Some contentCurrent \<Rightarrow>
          (let trackTop = Fin (target_top e);
               thumbOffset = js_neg (b64_div (thumbHeight cl) (Fin 2));
               clickRatio =
                 b64_div (b64_add (b64_sub (Fin (clientY e)) trackTop) thumbOffset)
                         (Fin (track_clientHeight trackCurrent));
               scrollAmount =
                 js_floor (b64_mul clickRatio (Fin (scrollHeight contentCurrent)))
           in [ContentScrollTo scrollAmount])))"

section \<open>Facts shared by the proofs\<close>

text \<open>No event replaces the scroll listener or the captured \<^verbatim>\<open>trackSize\<close>.\<close>

lemma step_keeps_scroll_listener:
  "cb_handleThumbPosition (fst (step c ev)) = cb_handleThumbPosition c"
  by (cases ev) (simp_all add: render_def useCallback_def split: option.splits)

lemma step_keeps_observing: "observing (fst (step c ev)) = observing c"
  by (cases ev) (simp_all add: render_def split: option.splits)

lemma run_keeps_scroll_listener:
  "cb_handleThumbPosition (run c evs) = cb_handleThumbPosition c"
  by (induction evs arbitrary: c) (simp_all add: step_keeps_scroll_listener)

lemma run_keeps_observing: "observing (run c evs) = observing c"
  by (induction evs arbitrary: c) (simp_all add: step_keeps_observing)

text \<open>The handlers on finite numbers, where no division is by zero.\<close>

lemma handleThumbPosition_finite:
  assumes "contentRef r = Some content" "scrollThumbRef r = Some thumb"
    "scrollTrackRef r = Some track" "scrollHeight content \<noteq> 0" "thumbHeight cl = Fin h"
  shows "handleThumbPosition cl r =
    [SetThumbStyleTop
       (Fin (min ((scrollTop content / scrollHeight content) * track_clientHeight track)
                 (track_clientHeight track - h)))]"
  using assms by (simp add: handleThumbPosition_def js_sub_def)


lemma deltaY_finite:
  assumes "thumbHeight cl = Fin h" "h \<noteq> 0" "scrollStartPosition cl = Some y0"
  shows "deltaY cl content e = Fin ((clientY e - y0) * (offsetHeight content / h))"
  using assms by (simp add: deltaY_def js_sub_def)

text \<open>
  Binary64 rounding: \<open>binade\<close> is the exponent it should be, a rounding can be computed
  from its exponent and significand, and it is off by at most half a unit in the last place.
\<close>

lemma binade_bounds:
  assumes "0 < a"
  shows "2 powi binade a \<le> a \<and> a < 2 powi (binade a + 1)"
proof (cases "1 \<le> a")
  case True
  define k where "k = bitlen \<lfloor>a\<rfloor>"
  have pos: "0 < \<lfloor>a\<rfloor>" using True by simp
  from bitlen_bounds [OF pos]
  have b: "2 ^ nat (k - 1) \<le> \<lfloor>a\<rfloor>" "\<lfloor>a\<rfloor> < 2 ^ nat k"
    by (simp_all add: k_def)
  have k1: "1 \<le> k"
    using pos by (simp add: k_def bitlen_alt_def)
  have lo: "(2::real) ^ nat (k - 1) \<le> a"
  proof -
    have "(2::real) ^ nat (k - 1) = of_int (2 ^ nat (k - 1))" by simp
    also have "\<dots> \<le> of_int \<lfloor>a\<rfloor>" using b(1) by (simp only: of_int_le_iff)
    also have "\<dots> \<le> a" by simp
    finally show ?thesis .
  qed
  have hi: "a < (2::real) ^ nat k"
  proof -
    have "\<lfloor>a\<rfloor> + 1 \<le> 2 ^ nat k" using b(2) by simp
    then have "of_int (\<lfloor>a\<rfloor> + 1) \<le> (of_int (2 ^ nat k) :: real)"
      by (simp only: of_int_le_iff)
    then have "of_int \<lfloor>a\<rfloor> + 1 \<le> (2::real) ^ nat k" by simp
    moreover have "a < of_int \<lfloor>a\<rfloor> + 1" by linarith
    ultimately show ?thesis by linarith
  qed
  have e: "binade a = k - 1" using True by (simp add: binade_def k_def)
  have p1: "(2::real) powi (k - 1) = 2 ^ nat (k - 1)"
    using k1 by (simp add: power_int_def)
  have p2: "(2::real) powi (k - 1 + 1) = 2 ^ nat k"
    using k1 by (simp add: power_int_def)
  show ?thesis unfolding e p1 p2 using lo hi by simp
next
  case False
  define y where "y = 1 / a"
  define c where "c = \<lceil>y\<rceil>"
  define k where "k = bitlen (c - 1)"
  have y1: "1 < y" using False assms by (simp add: y_def)
  have c2: "2 \<le> c" unfolding c_def using y1 by linarith
  have pos: "0 < c - 1" using c2 by simp
  from bitlen_bounds [OF pos]
  have b: "2 ^ nat (k - 1) \<le> c - 1" "c - 1 < 2 ^ nat k"
    by (simp_all add: k_def)
  have k1: "1 \<le> k"
    using pos by (simp add: k_def bitlen_alt_def)
  have ylo: "(2::real) ^ nat (k - 1) < y"
  proof -
    have "(2::real) ^ nat (k - 1) = of_int (2 ^ nat (k - 1))" by simp
    also have "\<dots> \<le> of_int (c - 1)" using b(1) by (simp only: of_int_le_iff)
    also have "\<dots> < y" unfolding c_def by linarith
    finally show ?thesis .
  qed
  have yhi: "y \<le> (2::real) ^ nat k"
  proof -
    have "c \<le> 2 ^ nat k" using b(2) by simp
    then have "of_int c \<le> (of_int (2 ^ nat k) :: real)" by (simp only: of_int_le_iff)
    then have "of_int c \<le> (2::real) ^ nat k" by simp
    moreover have "y \<le> of_int c" unfolding c_def by linarith
    ultimately show ?thesis by linarith
  qed
  have a: "a = 1 / y" using assms by (simp add: y_def)
  have e: "binade a = - k" using False by (simp add: binade_def k_def c_def y_def)
  have p1: "(2::real) powi (- k) = 1 / 2 ^ nat k"
    using k1 by (simp add: power_int_def field_simps)
  have p2: "(2::real) powi (- k + 1) = 1 / 2 ^ nat (k - 1)"
    using k1 by (auto simp add: power_int_def field_simps nat_diff_distrib)
  have lo: "1 / 2 ^ nat k \<le> a"
    unfolding a using yhi y1 by (simp add: frac_le)
  have hi: "a < 1 / 2 ^ nat (k - 1)"
    unfolding a using ylo by (simp add: frac_less2)
  show ?thesis unfolding e p1 p2 using lo hi by simp
qed

lemma binade_eq:
  assumes "2 powi e \<le> a" "a < 2 powi (e + 1)"
  shows "binade a = e"
proof -
  have pos: "0 < a"
    using assms(1) zero_less_power_int [of "2::real" e] by linarith
  from binade_bounds [OF pos]
  have b: "2 powi binade a \<le> a" "a < 2 powi (binade a + 1)" by simp_all
  have "\<not> binade a < e"
  proof
    assume "binade a < e"
    then have "binade a + 1 \<le> e" by simp
    then have "(2::real) powi (binade a + 1) \<le> 2 powi e"
      by (intro power_int_increasing) simp_all
    with assms(1) b(2) show False by linarith
  qed
  moreover have "\<not> e < binade a"
  proof
    assume "e < binade a"
    then have "e + 1 \<le> binade a" by simp
    then have "(2::real) powi (e + 1) \<le> 2 powi binade a"
      by (intro power_int_increasing) simp_all
    with assms(2) b(1) show False by linarith
  qed
  ultimately show ?thesis by simp
qed

lemma round64_eval:
  assumes "x \<noteq> 0" "- 1022 \<le> e" "2 powi e \<le> \<bar>x\<bar>" "\<bar>x\<bar> < 2 powi (e + 1)"
    "round_half_even (x / 2 powi (e - 52)) = n"
    "\<bar>of_int n * 2 powi (e - 52)\<bar> < (2::real) powi 1024"
  shows "round64 x = Fin (of_int n * 2 powi (e - 52))"
proof -
  have e: "max (binade \<bar>x\<bar>) (- 1022) = e"
    using binade_eq [OF assms(3,4)] assms(2) by simp
  show ?thesis
    unfolding round64_def Let_def e assms(5)
    using assms(1,6) by (auto simp: abs_less_iff)
qed

lemma round_half_even_error: "\<bar>of_int (round_half_even m) - m\<bar> \<le> 1 / 2"
proof -
  have "of_int \<lfloor>m\<rfloor> \<le> m" "m < of_int \<lfloor>m\<rfloor> + 1" by linarith+
  then show ?thesis
    by (auto simp add: round_half_even_def Let_def abs_le_iff)
qed

lemma round64_error:
  assumes "\<bar>x\<bar> < 2 powi 1023"
  shows "\<exists>y. round64 x = Fin y \<and> \<bar>y - x\<bar> \<le> max \<bar>x\<bar> (2 powi (- 1022)) / 2 ^ 53"
proof (cases "x = 0")
  case True
  then show ?thesis by (simp add: round64_def)
next
  case False
  define e where "e = max (binade \<bar>x\<bar>) (- 1022)"
  define ulp :: real where "ulp = 2 powi (e - 52)"
  define n where "n = round_half_even (x / ulp)"
  define y where "y = of_int n * ulp"
  have xpos: "0 < \<bar>x\<bar>" using False by simp
  have ulp_pos: "0 < ulp" by (simp add: ulp_def)
  from binade_bounds [OF xpos]
  have bb: "2 powi binade \<bar>x\<bar> \<le> \<bar>x\<bar>" by simp
  have blt: "binade \<bar>x\<bar> < 1023"
  proof (rule ccontr)
    assume "\<not> binade \<bar>x\<bar> < 1023"
    then have "(2::real) powi 1023 \<le> 2 powi binade \<bar>x\<bar>"
      by (intro power_int_increasing) simp_all
    with bb assms show False by linarith
  qed
  have e_le: "e \<le> 1022" using blt by (simp add: e_def)
  have pe: "2 powi e \<le> max \<bar>x\<bar> (2 powi (- 1022))"
    using bb by (auto simp add: e_def max_def)
  have ulp_eq: "ulp = 2 powi e / 2 ^ 52"
    by (simp add: ulp_def power_int_diff)
  have "\<bar>of_int n - x / ulp\<bar> \<le> 1 / 2"
    unfolding n_def by (rule round_half_even_error)
  then have "\<bar>of_int n - x / ulp\<bar> * ulp \<le> 1 / 2 * ulp"
    using ulp_pos by (intro mult_right_mono) simp_all
  moreover have "\<bar>of_int n - x / ulp\<bar> * ulp = \<bar>y - x\<bar>"
  proof -
    have "y - x = (of_int n - x / ulp) * ulp"
      using ulp_pos by (simp add: y_def field_simps)
    then show ?thesis using ulp_pos by (simp add: abs_mult)
  qed
  ultimately have err: "\<bar>y - x\<bar> \<le> ulp / 2" by simp
  have half: "ulp / 2 = 2 powi e / 2 ^ 53" by (simp add: ulp_eq)
  have err': "\<bar>y - x\<bar> \<le> max \<bar>x\<bar> (2 powi (- 1022)) / 2 ^ 53"
  proof -
    have "2 powi e / 2 ^ 53 \<le> max \<bar>x\<bar> (2 powi (- 1022)) / 2 ^ 53"
      using pe by (intro divide_right_mono) simp_all
    with err half show ?thesis by linarith
  qed
  have ulp_small: "ulp / 2 \<le> 2 powi 969"
  proof -
    have "ulp / 2 = 2 powi (e - 53)" by (simp add: ulp_def power_int_diff)
    also have "\<dots> \<le> 2 powi 969"
      using e_le by (intro power_int_increasing) simp_all
    finally show ?thesis .
  qed
  have big: "(2::real) powi 1023 + 2 powi 969 < 2 powi 1024" by simp
  have ybound: "\<bar>y\<bar> < 2 powi 1024"
    using err ulp_small assms big by linarith
  have "round64 x = Fin y"
    unfolding round64_def Let_def
    using False ybound
    by (auto simp add: y_def n_def ulp_def e_def abs_less_iff)
  with err' show ?thesis by blast
qed

lemma round64_error_bound:
  assumes "\<bar>x\<bar> \<le> B" "1 \<le> B" "B \<le> 2 ^ 64"
  shows "\<exists>y. round64 x = Fin y \<and> \<bar>y - x\<bar> \<le> B / 2 ^ 53"
proof -
  have "(2::real) ^ 64 < 2 powi 1023" by simp
  with assms have "\<bar>x\<bar> < 2 powi 1023" by linarith
  from round64_error [OF this] obtain y
    where y: "round64 x = Fin y" "\<bar>y - x\<bar> \<le> max \<bar>x\<bar> (2 powi (- 1022)) / 2 ^ 53"
    by blast
  have "(2::real) powi (- 1022) \<le> 1" by simp
  with assms have "max \<bar>x\<bar> (2 powi (- 1022)) \<le> B" by simp
  then have "max \<bar>x\<bar> (2 powi (- 1022)) / 2 ^ 53 \<le> B / 2 ^ 53"
    by (intro divide_right_mono) simp_all
  with y(2) have "\<bar>y - x\<bar> \<le> B / 2 ^ 53" by linarith
  with y(1) show ?thesis by blast
qed

text \<open>A quotient in the unit interval, rounded, times the track height, rounded.\<close>

lemma scaled_ratio_error:
  assumes "0 \<le> x" "x \<le> 1" "1 \<le> T" "T \<le> 2 ^ 31"
  shows "\<exists>p. b64_mul (round64 x) (Fin T) = Fin p \<and> \<bar>p - x * T\<bar> \<le> 3 * (T / 2 ^ 53)"
proof -
  have "\<bar>x\<bar> \<le> 1" using assms(1,2) by linarith
  then obtain q
    where q: "round64 x = Fin q" "\<bar>q - x\<bar> \<le> 1 / 2 ^ 53"
    using round64_error_bound [of x 1] by auto
  have small: "(1::real) / 2 ^ 53 \<le> 1" by simp
  have q2: "\<bar>q\<bar> \<le> 2" using q(2) assms(1,2) small by linarith
  have "\<bar>q - x\<bar> * T \<le> 1 / 2 ^ 53 * T"
    using q(2) assms(3) by (intro mult_right_mono) simp_all
  moreover have "\<bar>q - x\<bar> * T = \<bar>q * T - x * T\<bar>"
    using assms(3) by (simp add: abs_mult left_diff_distrib [symmetric])
  moreover have "1 / 2 ^ 53 * T = T / 2 ^ 53" by simp
  ultimately have e1: "\<bar>q * T - x * T\<bar> \<le> T / 2 ^ 53" by linarith
  have b: "\<bar>q * T\<bar> \<le> 2 * T"
  proof -
    have "\<bar>q * T\<bar> = \<bar>q\<bar> * T" using assms(3) by (simp add: abs_mult)
    also have "\<dots> \<le> 2 * T" using q2 assms(3) by (intro mult_right_mono) simp_all
    finally show ?thesis .
  qed
  have "1 \<le> 2 * T" "2 * T \<le> 2 ^ 64" using assms(3,4) by simp_all
  with b obtain p
    where p: "round64 (q * T) = Fin p" "\<bar>p - q * T\<bar> \<le> 2 * T / 2 ^ 53"
    using round64_error_bound [of "q * T" "2 * T"] by blast
  have "2 * T / 2 ^ 53 = 2 * (T / 2 ^ 53)" by simp
  with p(2) e1 have "\<bar>p - x * T\<bar> \<le> 3 * (T / 2 ^ 53)"
    by linarith
  moreover have "b64_mul (round64 x) (Fin T) = Fin p"
    using q(1) p(1) by (simp add: b64_mul_def)
  ultimately show ?thesis by blast
qed

lemma clamp_bound_error:
  assumes "1 \<le> T" "T \<le> 2 ^ 31" "20 \<le> k" "k \<le> 2 * T \<or> k = 20"
  shows "\<exists>c. b64_sub (Fin T) (Fin k) = Fin c \<and> \<bar>c - (T - k)\<bar> \<le> 20 * (T / 2 ^ 53)"
proof -
  have "\<bar>T - k\<bar> \<le> 20 * T" using assms by linarith
  moreover have "1 \<le> 20 * T" "20 * T \<le> 2 ^ 64" using assms(1,2) by simp_all
  ultimately obtain c
    where c: "round64 (T - k) = Fin c" "\<bar>c - (T - k)\<bar> \<le> 20 * T / 2 ^ 53"
    using round64_error_bound [of "T - k" "20 * T"] by blast
  have "20 * T / 2 ^ 53 = 20 * (T / 2 ^ 53)" by simp
  with c(2) have "\<bar>c - (T - k)\<bar> \<le> 20 * (T / 2 ^ 53)" by linarith
  moreover have "b64_sub (Fin T) (Fin k) = Fin c"
    using c(1) by (simp add: b64_sub_def js_sub_def)
  ultimately show ?thesis by blast
qed

text \<open>The roundings that the examples below go through.\<close>

lemma b64_ratio_250_700:
  "b64_div (Fin 250) (Fin 700) = Fin (6433713753386423 / 18014398509481984)"
  using round64_eval [of "250 / 700" "- 2" 6433713753386423]
  by (simp add: b64_div_def round_half_even_def)

lemma b64_thumb_250_700_100:
  "b64_mul (Fin (6433713753386423 / 18014398509481984)) (Fin 100)
     = Fin (5026338869833143 / 140737488355328)"
  using round64_eval [of "(6433713753386423 / 18014398509481984) * 100" "5" 5026338869833143]
  by (simp add: b64_mul_def round_half_even_def)

lemma b64_ratio_450_700:
  "b64_div (Fin 450) (Fin 700) = Fin (5790342378047781 / 9007199254740992)"
  using round64_eval [of "450 / 700" "- 1" 5790342378047781]
  by (simp add: b64_div_def round_half_even_def)

lemma b64_top_450_700_100:
  "b64_mul (Fin (5790342378047781 / 9007199254740992)) (Fin 100)
     = Fin (4523704982849829 / 70368744177664)"
  using round64_eval [of "(5790342378047781 / 9007199254740992) * 100" "6" 4523704982849829]
  by (simp add: b64_mul_def round_half_even_def)

lemma b64_clamp_100_20:
  "b64_sub (Fin 100) (Fin 20) = Fin 80"
  using round64_eval [of "100 - 20" "6" 5629499534213120]
  by (simp add: b64_sub_def js_sub_def round_half_even_def)

lemma b64_clamp_100_thumb:
  "b64_sub (Fin 100) (Fin (5026338869833143 / 140737488355328))
     = Fin (1130926245712457 / 17592186044416)"
  using round64_eval [of "100 - (5026338869833143 / 140737488355328)" "6" 4523704982849828]
  by (simp add: b64_sub_def js_sub_def round_half_even_def)

lemma b64_ratio_250_1000:
  "b64_div (Fin 250) (Fin 1000) = Fin (1 / 4)"
  using round64_eval [of "250 / 1000" "- 2" 4503599627370496]
  by (simp add: b64_div_def round_half_even_def)

lemma b64_thumb_250_1000_300:
  "b64_mul (Fin (1 / 4)) (Fin 300) = Fin 75"
  using round64_eval [of "(1 / 4) * 300" "6" 5277655813324800]
  by (simp add: b64_mul_def round_half_even_def)

lemma b64_ratio_875_1000:
  "b64_div (Fin 875) (Fin 1000) = Fin (7 / 8)"
  using round64_eval [of "875 / 1000" "- 1" 7881299347898368]
  by (simp add: b64_div_def round_half_even_def)

lemma b64_top_875_1000_300:
  "b64_mul (Fin (7 / 8)) (Fin 300) = Fin (525 / 2)"
  using round64_eval [of "(7 / 8) * 300" "8" 4617948836659200]
  by (simp add: b64_mul_def round_half_even_def)

lemma b64_clamp_300_20:
  "b64_sub (Fin 300) (Fin 20) = Fin 280"
  using round64_eval [of "300 - 20" "8" 4925812092436480]
  by (simp add: b64_sub_def js_sub_def round_half_even_def)

lemma b64_click_150_0:
  "b64_sub (Fin 150) (Fin 0) = Fin 150"
  using round64_eval [of "150 - 0" "7" 5277655813324800]
  by (simp add: b64_sub_def js_sub_def round_half_even_def)

lemma b64_half_thumb_20:
  "b64_div (Fin 20) (Fin 2) = Fin 10"
  using round64_eval [of "20 / 2" "3" 5629499534213120]
  by (simp add: b64_div_def round_half_even_def)

lemma b64_centre_150_10:
  "b64_sub (Fin 150) (Fin 10) = Fin 140"
  using round64_eval [of "150 - 10" "7" 4925812092436480]
  by (simp add: b64_sub_def js_sub_def round_half_even_def)

lemma b64_ratio_140_300:
  "b64_div (Fin 140) (Fin 300) = Fin (4203359652212463 / 9007199254740992)"
  using round64_eval [of "140 / 300" "- 2" 8406719304424926]
  by (simp add: b64_div_def round_half_even_def)

lemma b64_target_140_300_1000:
  "b64_mul (Fin (4203359652212463 / 9007199254740992)) (Fin 1000)
     = Fin (8209686820727467 / 17592186044416)"
  using round64_eval [of "(4203359652212463 / 9007199254740992) * 1000" "8" 8209686820727467]
  by (simp add: b64_mul_def round_half_even_def)

lemma b64_click_65_0:
  "b64_sub (Fin 65) (Fin 0) = Fin 65"
  using round64_eval [of "65 - 0" "6" 4573968371548160]
  by (simp add: b64_sub_def js_sub_def round_half_even_def)

lemma b64_centre_65_minus_10:
  "b64_add (Fin 65) (Fin (- 10)) = Fin 55"
  using round64_eval [of "65 + (- 10)" "5" 7740561859543040]
  by (simp add: b64_add_def round_half_even_def)

lemma b64_ratio_55_300:
  "b64_div (Fin 55) (Fin 300) = Fin (6605279453476727 / 36028797018963968)"
  using round64_eval [of "55 / 300" "- 3" 6605279453476727]
  by (simp add: b64_div_def round_half_even_def)

lemma b64_target_55_300_1200:
  "b64_mul (Fin (6605279453476727 / 36028797018963968)) (Fin 1200)
     = Fin (7740561859543039 / 35184372088832)"
  using round64_eval [of "(6605279453476727 / 36028797018963968) * 1200" "7" 7740561859543039]
  by (simp add: b64_mul_def round_half_even_def)

section \<open>Scroll sync\<close>

text \<open>
  C1, as the code has it. With all three surfaces mounted, a non-zero \<^verbatim>\<open>scrollHeight\<close>
  and a finite thumb height \<open>h\<close> in the handler's scope, \<^verbatim>\<open>handleThumbPosition\<close> sets
  the thumb top to \<open>min ((scrollTop / scrollHeight) * trackHeight) (trackHeight - h)\<close>:
  the value is capped from above only. It lies in \<open>[0, trackHeight - h]\<close> when
  \<open>scrollTop\<close> is not negative and the thumb is not longer than the track. For
  \<open>scrollTop = 400\<close>, \<open>scrollHeight = 1000\<close>, \<open>trackHeight = 300\<close> and \<open>h < 180\<close> the
  top is \<open>120\<close>.
\<close>

theorem handleThumbPosition_upper_clamp_only:
  assumes "contentRef r = Some content" "scrollThumbRef r = Some thumb"
    "scrollTrackRef r = Some track" "scrollHeight content \<noteq> 0" "thumbHeight cl = Fin h"
  shows "(let T = track_clientHeight track;
              t = min ((scrollTop content / scrollHeight content) * T) (T - h)
          in handleThumbPosition cl r = [SetThumbStyleTop (Fin t)]
           \<and> (0 \<le> scrollTop content \<and> 0 < scrollHeight content \<and> 0 < T \<and> h \<le> T
                \<longrightarrow> 0 \<le> t \<and> t \<le> T - h)
           \<and> (scrollTop content = 400 \<and> scrollHeight content = 1000 \<and> T = 300 \<and> h < 180
                \<longrightarrow> t = 120))"
  using assms by (auto simp add: Let_def handleThumbPosition_finite)

theorem handleThumbPosition_upper_clamp_only_witness:
  "handleThumbPosition
     \<lparr>thumbHeight = Fin 60, scrollStartPosition = None, initialScrollTop = 0,
        isDragging = False\<rparr>
     \<lparr>contentRef =
        Some \<lparr>scrollTop = 400, scrollHeight = 1000, clientHeight = 200, offsetHeight = 200\<rparr>,
      scrollTrackRef = Some \<lparr>track_clientHeight = 300\<rparr>,
      scrollThumbRef = Some ThumbEl\<rparr>
   = [SetThumbStyleTop (Fin 120)]"
  using handleThumbPosition_upper_clamp_only
    [of "\<lparr>contentRef =
            Some \<lparr>scrollTop = 400, scrollHeight = 1000, clientHeight = 200, offsetHeight = 200\<rparr>,
          scrollTrackRef = Some \<lparr>track_clientHeight = 300\<rparr>,
          scrollThumbRef = Some ThumbEl\<rparr>"
        "\<lparr>scrollTop = 400, scrollHeight = 1000, clientHeight = 200, offsetHeight = 200\<rparr>"
        ThumbEl "\<lparr>track_clientHeight = 300\<rparr>"
        "\<lparr>thumbHeight = Fin 60, scrollStartPosition = None, initialScrollTop = 0,
          isDragging = False\<rparr>" 60]
  by (simp add: Let_def)

text \<open>
  The claim's lower bound fails: a negative \<^verbatim>\<open>scrollTop\<close> (an elastic overscroll, a
  reversed column) gives a negative top, where a clamp to \<open>[0, 280]\<close> would give \<open>0\<close>.
  So does a track shorter than the thumb height the handler reads: on a track of \<open>10\<close>,
  half way down a content of \<open>100\<close>, the top is \<open>-10\<close>.
\<close>

theorem handleThumbPosition_negative_top:
  "handleThumbPosition initial_state
     \<lparr>contentRef =
        Some \<lparr>scrollTop = - 50, scrollHeight = 1000, clientHeight = 200, offsetHeight = 200\<rparr>,
      scrollTrackRef = Some \<lparr>track_clientHeight = 300\<rparr>,
      scrollThumbRef = Some ThumbEl\<rparr>
   = [SetThumbStyleTop (Fin (- 15))]
   \<and> handleThumbPosition initial_state
     \<lparr>contentRef =
        Some \<lparr>scrollTop = - 50, scrollHeight = 1000, clientHeight = 200, offsetHeight = 200\<rparr>,
      scrollTrackRef = Some \<lparr>track_clientHeight = 300\<rparr>,
      scrollThumbRef = Some ThumbEl\<rparr>
   \<noteq> [SetThumbStyleTop (Fin (max 0 (min ((- 50 / 1000) * 300) (300 - 20))))]
   \<and> handleThumbPosition initial_state
     \<lparr>contentRef =
        Some \<lparr>scrollTop = 50, scrollHeight = 100, clientHeight = 50, offsetHeight = 50\<rparr>,
      scrollTrackRef = Some \<lparr>track_clientHeight = 10\<rparr>,
      scrollThumbRef = Some ThumbEl\<rparr>
   = [SetThumbStyleTop (Fin (- 10))]"
  by (simp add: handleThumbPosition_def initial_state_def js_sub_def)

text \<open>
  C9. \<^verbatim>\<open>handleThumbPosition\<close> is memoized with the dependency list \<^verbatim>\<open>[]\<close>, and the
  mount effect registers it once. So after any sequence of events the scroll listener still
  reads the thumb height of the first render, \<open>20\<close>: with the listener registered, all
  three surfaces mounted and a non-zero \<^verbatim>\<open>scrollHeight\<close>, a scroll event sets the thumb
  top to \<open>min ((scrollTop / scrollHeight) * trackHeight) (trackHeight - 20)\<close>, whatever
  the current thumb height is.
\<close>

theorem scroll_listener_keeps_initial_thumb_height:
  assumes "contentRef r0 = Some content0" "scrollTrackRef r0 = Some track0"
    "contentRef r = Some content" "scrollThumbRef r = Some thumb"
    "scrollTrackRef r = Some track" "scrollHeight content \<noteq> 0"
  shows "thumbHeight (cb_handleThumbPosition (run (mount r0) evs)) = Fin 20
       \<and> snd (step (run (mount r0) evs) (Scroll r)) =
           Inr [SetThumbStyleTop
                  (Fin (min ((scrollTop content / scrollHeight content)
                               * track_clientHeight track)
                            (track_clientHeight track - 20)))]"
  using assms
  by (simp add: run_keeps_scroll_listener run_keeps_observing handleThumbPosition_finite
      mount_def initial_state_def)

text \<open>
  The content is \<open>400\<close> high in a box of \<open>200\<close> when the observer fires (thumb height
  \<open>150\<close> on a track of \<open>300\<close>), then grows to \<open>2000\<close> without a change of its box,
  and is scrolled to the end: the top is \<open>270\<close>, beyond \<open>300 - 150\<close>.
\<close>

theorem scroll_listener_keeps_initial_thumb_height_witness:
  "thumbHeight (cstate (run (mount
      \<lparr>contentRef =
         Some \<lparr>scrollTop = 0, scrollHeight = 400, clientHeight = 200, offsetHeight = 200\<rparr>,
       scrollTrackRef = Some \<lparr>track_clientHeight = 300\<rparr>,
       scrollThumbRef = Some ThumbEl\<rparr>)
      [Resize \<lparr>scrollTop = 0, scrollHeight = 400, clientHeight = 200, offsetHeight = 200\<rparr>]))
   = Fin 150
   \<and> snd (step (run (mount
      \<lparr>contentRef =
         Some \<lparr>scrollTop = 0, scrollHeight = 400, clientHeight = 200, offsetHeight = 200\<rparr>,
       scrollTrackRef = Some \<lparr>track_clientHeight = 300\<rparr>,
       scrollThumbRef = Some ThumbEl\<rparr>)
      [Resize \<lparr>scrollTop = 0, scrollHeight = 400, clientHeight = 200, offsetHeight = 200\<rparr>])
      (Scroll
        \<lparr>contentRef =
           Some \<lparr>scrollTop = 1800, scrollHeight = 2000, clientHeight = 200, offsetHeight = 200\<rparr>,
         scrollTrackRef = Some \<lparr>track_clientHeight = 300\<rparr>,
         scrollThumbRef = Some ThumbEl\<rparr>))
   = Inr [SetThumbStyleTop (Fin 270)]
   \<and> (300 - 150 < (270 :: real))"
  using scroll_listener_keeps_initial_thumb_height
    [of "\<lparr>contentRef =
            Some \<lparr>scrollTop = 0, scrollHeight = 400, clientHeight = 200, offsetHeight = 200\<rparr>,
          scrollTrackRef = Some \<lparr>track_clientHeight = 300\<rparr>,
          scrollThumbRef = Some ThumbEl\<rparr>"
        "\<lparr>scrollTop = 0, scrollHeight = 400, clientHeight = 200, offsetHeight = 200\<rparr>"
        "\<lparr>track_clientHeight = 300\<rparr>"
        "\<lparr>contentRef =
            Some \<lparr>scrollTop = 1800, scrollHeight = 2000, clientHeight = 200, offsetHeight = 200\<rparr>,
          scrollTrackRef = Some \<lparr>track_clientHeight = 300\<rparr>,
          scrollThumbRef = Some ThumbEl\<rparr>"
        "\<lparr>scrollTop = 1800, scrollHeight = 2000, clientHeight = 200, offsetHeight = 200\<rparr>"
        ThumbEl "\<lparr>track_clientHeight = 300\<rparr>"
        "[Resize \<lparr>scrollTop = 0, scrollHeight = 400, clientHeight = 200, offsetHeight = 200\<rparr>]"]
  by (simp add: mount_def render_def handleResize_def initial_state_def)

text \<open>
  C2, as the code has it. Take a content with \<open>0 < clientHeight < scrollHeight\<close> at its
  maximum offset \<open>scrollTop = scrollHeight - clientHeight\<close>, a track of height \<open>T\<close>
  between \<open>1\<close> and \<open>2 ^ 31\<close>, and the thumb height \<open>h\<close> that \<^verbatim>\<open>handleResize\<close>
  computes from them. Then \<^verbatim>\<open>handleThumbPosition\<close>, whether it reads the initial thumb
  height \<open>20\<close> or \<open>h\<close>, sets the thumb top to \<open>T - h\<close> up to rounding: the two differ
  by at most \<open>T / 2 ^ 48\<close>. All arithmetic is binary64.
\<close>

theorem thumb_at_track_end_up_to_rounding:
  assumes "contentRef r = Some content" "scrollThumbRef r = Some thumb"
    "scrollTrackRef r = Some \<lparr>track_clientHeight = T\<rparr>"
    "0 < clientHeight content" "clientHeight content < scrollHeight content"
    "1 \<le> T" "T \<le> 2 ^ 31"
    "scrollTop content = scrollHeight content - clientHeight content"
    "thumbHeight cl = Fin 20 \<or> thumbHeight cl = thumbHeight (handleResize_b64 content T st)"
  shows "\<exists>h t. thumbHeight (handleResize_b64 content T st) = Fin h
           \<and> handleThumbPosition_b64 cl r = [SetThumbStyleTop (Fin t)]
           \<and> \<bar>t - (T - h)\<bar> \<le> T / 2 ^ 48"
proof -
  define C where "C = clientHeight content"
  define S where "S = scrollHeight content"
  define \<epsilon> where "\<epsilon> = T / 2 ^ 53"
  have S: "0 < S" and C: "0 < C" and CS: "C < S"
    using assms(4,5) by (simp_all add: S_def C_def)
  have eps: "0 \<le> \<epsilon>" using assms(6) by (simp add: \<epsilon>_def)
  have eps48: "T / 2 ^ 48 = 32 * \<epsilon>" by (simp add: \<epsilon>_def)
  have x2: "0 \<le> C / S" "C / S \<le> 1" using S C CS by simp_all
  have x1: "0 \<le> (S - C) / S" "(S - C) / S \<le> 1" using S C CS by simp_all
  have split: "(S - C) / S * T = T - C / S * T"
    using S by (simp add: field_simps)
  from scaled_ratio_error [OF x2 assms(6,7)] obtain p
    where p: "b64_mul (round64 (C / S)) (Fin T) = Fin p" "\<bar>p - C / S * T\<bar> \<le> 3 * \<epsilon>"
    unfolding \<epsilon>_def by blast
  from scaled_ratio_error [OF x1 assms(6,7)] obtain raw
    where raw: "b64_mul (round64 ((S - C) / S)) (Fin T) = Fin raw"
      "\<bar>raw - (S - C) / S * T\<bar> \<le> 3 * \<epsilon>"
    unfolding \<epsilon>_def by blast
  define h where "h = max p 20"
  have hres: "thumbHeight (handleResize_b64 content T st) = Fin h"
    using p(1) S by (simp add: handleResize_b64_def b64_div_def C_def S_def h_def)
  obtain k where k: "thumbHeight cl = Fin k" "k = 20 \<or> k = h"
    using assms(9) hres by auto
  have xT: "C / S * T \<le> T"
    using x2(2) assms(6) mult_right_mono [of "C / S" 1 T] by simp
  have eT: "3 * \<epsilon> \<le> T"
    using assms(6) by (simp add: \<epsilon>_def)
  have p2T: "p \<le> 2 * T" using p(2) xT eT by linarith
  have k20: "20 \<le> k" using k(2) by (auto simp add: h_def)
  have kb: "k \<le> 2 * T \<or> k = 20" using k(2) p2T by (auto simp add: h_def max_def)
  from clamp_bound_error [OF assms(6,7) k20 kb] obtain c
    where c: "b64_sub (Fin T) (Fin k) = Fin c" "\<bar>c - (T - k)\<bar> \<le> 20 * \<epsilon>"
    unfolding \<epsilon>_def by blast
  define t where "t = min raw c"
  have out: "handleThumbPosition_b64 cl r = [SetThumbStyleTop (Fin t)]"
    using assms(1,2,3,8) raw(1) c(1) k(1) S
    by (simp add: handleThumbPosition_b64_def b64_div_def S_def C_def t_def)
  have bound: "\<bar>t - (T - h)\<bar> \<le> 32 * \<epsilon>"
  proof (cases "20 \<le> p")
    case True
    then have hp: "h = p" by (simp add: h_def)
    show ?thesis
      using k(2) c(2) raw(2) p(2) split eps True
      unfolding hp t_def by (auto simp add: min_def; linarith)
  next
    case False
    then have h20: "h = 20" by (simp add: h_def)
    then have "k = 20" using k(2) by auto
    then show ?thesis
      using c(2) raw(2) p(2) split eps False
      unfolding h20 t_def by (auto simp add: min_def; linarith)
  qed
  show ?thesis
    using hres out bound unfolding eps48 by blast
qed

theorem thumb_at_track_end_up_to_rounding_witness:
  "\<exists>h t.
     thumbHeight
       (handleResize_b64
          \<lparr>scrollTop = 450, scrollHeight = 700, clientHeight = 250, offsetHeight = 250\<rparr>
          100 initial_state) = Fin h
     \<and> handleThumbPosition_b64 initial_state
          \<lparr>contentRef =
             Some \<lparr>scrollTop = 450, scrollHeight = 700, clientHeight = 250, offsetHeight = 250\<rparr>,
           scrollTrackRef = Some \<lparr>track_clientHeight = 100\<rparr>,
           scrollThumbRef = Some ThumbEl\<rparr>
        = [SetThumbStyleTop (Fin t)]
     \<and> \<bar>t - (100 - h)\<bar> \<le> 100 / 2 ^ 48"
  using thumb_at_track_end_up_to_rounding
    [of "\<lparr>contentRef =
            Some \<lparr>scrollTop = 450, scrollHeight = 700, clientHeight = 250, offsetHeight = 250\<rparr>,
          scrollTrackRef = Some \<lparr>track_clientHeight = 100\<rparr>,
          scrollThumbRef = Some ThumbEl\<rparr>"
        "\<lparr>scrollTop = 450, scrollHeight = 700, clientHeight = 250, offsetHeight = 250\<rparr>"
        ThumbEl 100 initial_state initial_state]
  by (simp add: initial_state_def)

text \<open>
  Equality fails, and so does the bound from above. A content of \<open>700\<close> in a box of
  \<open>250\<close> on a track of \<open>100\<close>, scrolled to its maximum \<open>450\<close>: the thumb height is
  \<open>35.714285714285715\<close> and the scroll listener, which holds the thumb height \<open>20\<close> of
  the first render, writes \<open>64.28571428571429\<close>, above \<open>100\<close> minus the thumb height,
  which is \<open>64.28571428571428\<close> in binary64. And beyond the maximum offset, where an
  elastic scroller can be, the excess is not in the last place: a content of \<open>1000\<close> in a
  box of \<open>250\<close> on a track of \<open>300\<close> has a thumb of \<open>75\<close>, and at \<open>scrollTop = 875\<close>
  the top is \<open>262.5\<close>, above \<open>300 - 75\<close>.
\<close>

theorem thumb_top_exceeds_track_end:
  "thumbHeight
     (handleResize_b64
        \<lparr>scrollTop = 450, scrollHeight = 700, clientHeight = 250, offsetHeight = 250\<rparr>
        100 initial_state)
     = Fin (5026338869833143 / 140737488355328)
   \<and> handleThumbPosition_b64 initial_state
        \<lparr>contentRef =
             Some \<lparr>scrollTop = 450, scrollHeight = 700, clientHeight = 250, offsetHeight = 250\<rparr>,
           scrollTrackRef = Some \<lparr>track_clientHeight = 100\<rparr>,
           scrollThumbRef = Some ThumbEl\<rparr>
     = [SetThumbStyleTop (Fin (4523704982849829 / 70368744177664))]
   \<and> 100 - 5026338869833143 / 140737488355328 < (4523704982849829 / 70368744177664 :: real)
   \<and> b64_sub (Fin 100) (Fin (5026338869833143 / 140737488355328))
     = Fin (1130926245712457 / 17592186044416)
   \<and> 1130926245712457 / 17592186044416 < (4523704982849829 / 70368744177664 :: real)
   \<and> thumbHeight
       (handleResize_b64
          \<lparr>scrollTop = 875, scrollHeight = 1000, clientHeight = 250, offsetHeight = 250\<rparr>
          300 initial_state)
     = Fin 75
   \<and> handleThumbPosition_b64 initial_state
        \<lparr>contentRef =
             Some \<lparr>scrollTop = 875, scrollHeight = 1000, clientHeight = 250, offsetHeight = 250\<rparr>,
           scrollTrackRef = Some \<lparr>track_clientHeight = 300\<rparr>,
           scrollThumbRef = Some ThumbEl\<rparr>
     = [SetThumbStyleTop (Fin (525 / 2))]
   \<and> 300 - 75 < (525 / 2 :: real)"
  by (simp add: handleResize_b64_def handleThumbPosition_b64_def initial_state_def
      b64_ratio_250_700 b64_thumb_250_700_100 b64_ratio_450_700 b64_top_450_700_100
      b64_clamp_100_20 b64_clamp_100_thumb b64_ratio_250_1000 b64_thumb_250_1000_300
      b64_ratio_875_1000 b64_top_875_1000_300 b64_clamp_300_20)

section \<open>Dragging the thumb\<close>

text \<open>
  C3, as the code has it. While dragging (content mounted, thumb height \<open>h\<close> finite
  and non-zero, drag started at pointer position \<open>y0\<close>), a pointer move gives
  \<open>deltaY = (clientY - y0) * (offsetHeight / h)\<close>: the ratio is taken from the content's
  \<^verbatim>\<open>offsetHeight\<close>. Where the cap does not apply, the offset written is the start
  offset plus \<open>deltaY\<close>. With \<open>offsetHeight = 200\<close> and \<open>h = 50\<close>, a movement of
  \<open>25\<close> gives \<open>100\<close>.
\<close>

theorem drag_delta_scales_by_offsetHeight:
  assumes "isDragging cl" "contentRef r = Some content"
    "thumbHeight cl = Fin h" "h \<noteq> 0" "scrollStartPosition cl = Some y0"
  shows "(let d = (clientY e - y0) * (offsetHeight content / h)
          in deltaY cl content e = Fin d
           \<and> (initialScrollTop cl + d \<le> scrollHeight content - offsetHeight content \<longrightarrow>
                handleThumbMouseMove cl r e =
                  Inr [PreventDefault, StopPropagation,
                       SetContentScrollTop (Fin (initialScrollTop cl + d))])
           \<and> (offsetHeight content = 200 \<and> h = 50 \<and> clientY e - y0 = 25 \<longrightarrow> d = 100))"
  using assms by (auto simp add: Let_def handleThumbMouseMove_def deltaY_finite js_sub_def)

theorem drag_delta_scales_by_offsetHeight_witness:
  "deltaY
     \<lparr>thumbHeight = Fin 50, scrollStartPosition = Some 100, initialScrollTop = 300,
        isDragging = True\<rparr>
     \<lparr>scrollTop = 300, scrollHeight = 1000, clientHeight = 200, offsetHeight = 200\<rparr>
     \<lparr>clientY = 125, target_top = 0\<rparr>
   = Fin 100
   \<and> handleThumbMouseMove
     \<lparr>thumbHeight = Fin 50, scrollStartPosition = Some 100, initialScrollTop = 300,
        isDragging = True\<rparr>
     \<lparr>contentRef =
        Some \<lparr>scrollTop = 300, scrollHeight = 1000, clientHeight = 200, offsetHeight = 200\<rparr>,
      scrollTrackRef = Some \<lparr>track_clientHeight = 300\<rparr>,
      scrollThumbRef = Some ThumbEl\<rparr>
     \<lparr>clientY = 125, target_top = 0\<rparr>
   = Inr [PreventDefault, StopPropagation, SetContentScrollTop (Fin 400)]"
  using drag_delta_scales_by_offsetHeight
    [of "\<lparr>thumbHeight = Fin 50, scrollStartPosition = Some 100, initialScrollTop = 300,
            isDragging = True\<rparr>"
        "\<lparr>contentRef =
            Some \<lparr>scrollTop = 300, scrollHeight = 1000, clientHeight = 200, offsetHeight = 200\<rparr>,
          scrollTrackRef = Some \<lparr>track_clientHeight = 300\<rparr>,
          scrollThumbRef = Some ThumbEl\<rparr>"
        "\<lparr>scrollTop = 300, scrollHeight = 1000, clientHeight = 200, offsetHeight = 200\<rparr>"
        50 100 "\<lparr>clientY = 125, target_top = 0\<rparr>"]
  by (simp add: Let_def)

text \<open>
  With a border of \<open>5\<close> on the content (\<open>clientHeight = 200\<close>,
  \<open>offsetHeight = 210\<close>) the same movement gives \<open>105\<close>, not
  \<open>25 * (clientHeight / 50)\<close>.
\<close>

theorem drag_delta_not_clientHeight:
  "deltaY
     \<lparr>thumbHeight = Fin 50, scrollStartPosition = Some 100, initialScrollTop = 0,
        isDragging = True\<rparr>
     \<lparr>scrollTop = 0, scrollHeight = 1000, clientHeight = 200, offsetHeight = 210\<rparr>
     \<lparr>clientY = 125, target_top = 0\<rparr>
   = Fin 105
   \<and> deltaY
     \<lparr>thumbHeight = Fin 50, scrollStartPosition = Some 100, initialScrollTop = 0,
        isDragging = True\<rparr>
     \<lparr>scrollTop = 0, scrollHeight = 1000, clientHeight = 200, offsetHeight = 210\<rparr>
     \<lparr>clientY = 125, target_top = 0\<rparr>
   \<noteq> Fin ((125 - 100) * (clientHeight \<lparr>scrollTop = 0, scrollHeight = 1000, clientHeight = 200, offsetHeight = 210\<rparr> / 50))"
  by (simp add: deltaY_def js_sub_def)

text \<open>
  C4, as the code has it. While dragging (same conditions), the offset assigned to the
  content's \<^verbatim>\<open>scrollTop\<close> is
  \<open>min (initialScrollTop + deltaY) (scrollHeight - offsetHeight)\<close>. There is no lower
  clamp: whenever \<open>initialScrollTop + deltaY\<close> is negative, so is the value assigned.
\<close>

theorem drag_write_upper_clamp_only:
  assumes "isDragging cl" "contentRef r = Some content"
    "thumbHeight cl = Fin h" "h \<noteq> 0" "scrollStartPosition cl = Some y0"
  shows "(let d = (clientY e - y0) * (offsetHeight content / h);
              w = min (initialScrollTop cl + d) (scrollHeight content - offsetHeight content)
          in handleThumbMouseMove cl r e =
               Inr [PreventDefault, StopPropagation, SetContentScrollTop (Fin w)]
           \<and> (initialScrollTop cl + d < 0 \<longrightarrow> w < 0))"
  using assms by (auto simp add: Let_def handleThumbMouseMove_def deltaY_finite js_sub_def)

theorem drag_write_upper_clamp_only_witness:
  "handleThumbMouseMove
     \<lparr>thumbHeight = Fin 50, scrollStartPosition = Some 100, initialScrollTop = 700,
        isDragging = True\<rparr>
     \<lparr>contentRef =
        Some \<lparr>scrollTop = 700, scrollHeight = 1000, clientHeight = 200, offsetHeight = 200\<rparr>,
      scrollTrackRef = Some \<lparr>track_clientHeight = 300\<rparr>,
      scrollThumbRef = Some ThumbEl\<rparr>
     \<lparr>clientY = 175, target_top = 0\<rparr>
   = Inr [PreventDefault, StopPropagation, SetContentScrollTop (Fin 800)]"
  using drag_write_upper_clamp_only
    [of "\<lparr>thumbHeight = Fin 50, scrollStartPosition = Some 100, initialScrollTop = 700,
            isDragging = True\<rparr>"
        "\<lparr>contentRef =
            Some \<lparr>scrollTop = 700, scrollHeight = 1000, clientHeight = 200, offsetHeight = 200\<rparr>,
          scrollTrackRef = Some \<lparr>track_clientHeight = 300\<rparr>,
          scrollThumbRef = Some ThumbEl\<rparr>"
        "\<lparr>scrollTop = 700, scrollHeight = 1000, clientHeight = 200, offsetHeight = 200\<rparr>"
        50 100 "\<lparr>clientY = 175, target_top = 0\<rparr>"]
  by (simp add: Let_def)

text \<open>
  A pointer \<open>25\<close> above the drag start, from the top of the content: the handler assigns
  \<open>-100\<close>, where the claim's clamp gives \<open>0\<close>. And with \<open>offsetHeight = 210\<close> a
  drag far down assigns \<open>1000 - 210\<close>, where the claim's cap is \<open>1000 - 200\<close>.
\<close>

theorem drag_write_negative:
  "handleThumbMouseMove
     \<lparr>thumbHeight = Fin 50, scrollStartPosition = Some 100, initialScrollTop = 0,
        isDragging = True\<rparr>
     \<lparr>contentRef =
        Some \<lparr>scrollTop = 0, scrollHeight = 1000, clientHeight = 200, offsetHeight = 200\<rparr>,
      scrollTrackRef = Some \<lparr>track_clientHeight = 300\<rparr>,
      scrollThumbRef = Some ThumbEl\<rparr>
     \<lparr>clientY = 75, target_top = 0\<rparr>
   = Inr [PreventDefault, StopPropagation, SetContentScrollTop (Fin (- 100))]
   \<and> handleThumbMouseMove
     \<lparr>thumbHeight = Fin 50, scrollStartPosition = Some 100, initialScrollTop = 0,
        isDragging = True\<rparr>
     \<lparr>contentRef =
        Some \<lparr>scrollTop = 0, scrollHeight = 1000, clientHeight = 200, offsetHeight = 200\<rparr>,
      scrollTrackRef = Some \<lparr>track_clientHeight = 300\<rparr>,
      scrollThumbRef = Some ThumbEl\<rparr>
     \<lparr>clientY = 75, target_top = 0\<rparr>
   \<noteq> Inr [PreventDefault, StopPropagation,
           SetContentScrollTop (Fin (max 0 (min (0 + (75 - 100) * (200 / 50)) (1000 - 200))))]
   \<and> handleThumbMouseMove
     \<lparr>thumbHeight = Fin 50, scrollStartPosition = Some 100, initialScrollTop = 0,
        isDragging = True\<rparr>
     \<lparr>contentRef =
        Some \<lparr>scrollTop = 0, scrollHeight = 1000, clientHeight = 200, offsetHeight = 210\<rparr>,
      scrollTrackRef = Some \<lparr>track_clientHeight = 300\<rparr>,
      scrollThumbRef = Some ThumbEl\<rparr>
     \<lparr>clientY = 400, target_top = 0\<rparr>
   = Inr [PreventDefault, StopPropagation, SetContentScrollTop (Fin 790)]"
  by (simp add: handleThumbMouseMove_def deltaY_def js_sub_def)

text \<open>
  C8. The other handlers test the refs they use: with a surface missing, the scroll
  handler and the scroll buttons do nothing, and a track click does nothing beyond the two
  calls on its event. \<^verbatim>\<open>handleThumbMouseMove\<close> has no such test: while dragging, a
  pointer move with the content ref empty throws.
\<close>

theorem handleThumbMouseMove_null_content_throws:
  "handleThumbPosition cl (r\<lparr>contentRef := None\<rparr>) = []
   \<and> handleThumbPosition cl (r\<lparr>scrollThumbRef := None\<rparr>) = []
   \<and> handleThumbPosition cl (r\<lparr>scrollTrackRef := None\<rparr>) = []
   \<and> handleScrollButton (r\<lparr>contentRef := None\<rparr>) d = []
   \<and> handleTrackClick cl (r\<lparr>contentRef := None\<rparr>) e = [PreventDefault, StopPropagation]
   \<and> handleTrackClick cl (r\<lparr>scrollTrackRef := None\<rparr>) e = [PreventDefault, StopPropagation]
   \<and> handleThumbMouseMove (cl\<lparr>isDragging := False\<rparr>) (r\<lparr>contentRef := None\<rparr>) e
       = Inr [PreventDefault, StopPropagation]
   \<and> handleThumbMouseMove (cl\<lparr>isDragging := True\<rparr>) (r\<lparr>contentRef := None\<rparr>) e
       = Inl TypeError"
  by (simp add: handleThumbPosition_def handleScrollButton_def handleTrackClick_def
      handleThumbMouseMove_def split: option.splits)

section \<open>Clicking the track\<close>

text \<open>
  C5, as the code has it. For a click on the track, with the track and the content mounted,
  the handler requests a scroll of the content to the floor of
  \<open>((clientY - trackTop) - thumbHeight / 2) / trackHeight * scrollHeight\<close>, each of the
  five operations being rounded to binary64. For a track of \<open>300\<close> at the top of the
  viewport, a thumb height of \<open>20\<close>, \<open>scrollHeight = 1000\<close> and a click at \<open>150\<close> the
  target is \<open>466\<close>.
\<close>

theorem handleTrackClick_target_binary64:
  assumes "scrollTrackRef r = Some track" "contentRef r = Some content"
  shows "handleTrackClick_b64 cl r e =
    [PreventDefault, StopPropagation,
     ContentScrollTo
       (js_floor
          (b64_mul
             (b64_div
                (b64_sub (b64_sub (Fin (clientY e)) (Fin (target_top e)))
                         (b64_div (thumbHeight cl) (Fin 2)))
                (Fin (track_clientHeight track)))
             (Fin (scrollHeight content))))]"
  using assms by (simp add: handleTrackClick_b64_def b64_add_def b64_sub_def js_sub_def)

theorem handleTrackClick_target_binary64_witness:
  "handleTrackClick_b64 initial_state
     \<lparr>contentRef =
        Some \<lparr>scrollTop = 0, scrollHeight = 1000, clientHeight = 200, offsetHeight = 200\<rparr>,
      scrollTrackRef = Some \<lparr>track_clientHeight = 300\<rparr>,
      scrollThumbRef = Some ThumbEl\<rparr>
     \<lparr>clientY = 150, target_top = 0\<rparr>
   = [PreventDefault, StopPropagation, ContentScrollTo (Fin 466)]"
  using handleTrackClick_target_binary64
    [of "\<lparr>contentRef =
            Some \<lparr>scrollTop = 0, scrollHeight = 1000, clientHeight = 200, offsetHeight = 200\<rparr>,
          scrollTrackRef = Some \<lparr>track_clientHeight = 300\<rparr>,
          scrollThumbRef = Some ThumbEl\<rparr>"
        "\<lparr>track_clientHeight = 300\<rparr>"
        "\<lparr>scrollTop = 0, scrollHeight = 1000, clientHeight = 200, offsetHeight = 200\<rparr>"
        initial_state "\<lparr>clientY = 150, target_top = 0\<rparr>"]
  by (simp add: initial_state_def
      b64_click_150_0 b64_half_thumb_20 b64_centre_150_10 b64_ratio_140_300
      b64_target_140_300_1000)

text \<open>
  The rounding shows in the integer requested. With \<open>scrollHeight = 1200\<close> and a click at
  \<open>65\<close>, the exact value of the expression is \<open>220\<close>; the quotient \<open>55 / 300\<close> rounds
  down, the product is \<open>219.99999999999997\<close>, and the handler asks for \<open>219\<close>.
\<close>

theorem handleTrackClick_target_not_exact_floor:
  "handleTrackClick_b64 initial_state
     \<lparr>contentRef =
        Some \<lparr>scrollTop = 0, scrollHeight = 1200, clientHeight = 200, offsetHeight = 200\<rparr>,
      scrollTrackRef = Some \<lparr>track_clientHeight = 300\<rparr>,
      scrollThumbRef = Some ThumbEl\<rparr>
     \<lparr>clientY = 65, target_top = 0\<rparr>
   = [PreventDefault, StopPropagation, ContentScrollTo (Fin 219)]
   \<and> handleTrackClick_b64 initial_state
     \<lparr>contentRef =
        Some \<lparr>scrollTop = 0, scrollHeight = 1200, clientHeight = 200, offsetHeight = 200\<rparr>,
      scrollTrackRef = Some \<lparr>track_clientHeight = 300\<rparr>,
      scrollThumbRef = Some ThumbEl\<rparr>
     \<lparr>clientY = 65, target_top = 0\<rparr>
   \<noteq> [PreventDefault, StopPropagation,
        ContentScrollTo (Fin (of_int \<lfloor>((65 - 0) - 20 / 2) / 300 * (1200 :: real)\<rfloor>))]"
  by (simp add: handleTrackClick_b64_def initial_state_def
      b64_click_65_0 b64_half_thumb_20 b64_centre_65_minus_10 b64_ratio_55_300
      b64_target_55_300_1200)



section \<open>Geometry that is not measured yet\<close>

text \<open>
  C7, as the code has it. Neither operation tests \<^verbatim>\<open>scrollHeight\<close>. When it is \<open>0\<close>,
  \<^verbatim>\<open>handleResize\<close> sets the thumb height to \<^verbatim>\<open>NaN\<close> if \<^verbatim>\<open>clientHeight\<close> is
  \<open>0\<close> too, and to \<^verbatim>\<open>Infinity\<close> if \<^verbatim>\<open>clientHeight\<close> and the track size are
  positive; and \<^verbatim>\<open>handleThumbPosition\<close>, with all three surfaces mounted and
  \<^verbatim>\<open>scrollTop\<close> \<open>0\<close>, assigns \<^verbatim>\<open>NaN\<close> as the thumb top.
\<close>

theorem unmeasured_geometry_not_guarded:
  assumes "scrollHeight content = 0"
  shows "(clientHeight content = 0 \<longrightarrow>
            handleResize content trackSize st = st\<lparr>thumbHeight := NaN\<rparr>)
       \<and> (0 < clientHeight content \<and> 0 < trackSize \<longrightarrow>
            handleResize content trackSize st = st\<lparr>thumbHeight := PInf\<rparr>)
       \<and> (scrollTop content = 0 \<and> contentRef r = Some content
            \<and> scrollThumbRef r = Some thumb \<and> scrollTrackRef r = Some track \<longrightarrow>
            handleThumbPosition cl r = [SetThumbStyleTop NaN])"
  using assms by (auto simp add: handleResize_def handleThumbPosition_def)

theorem unmeasured_geometry_not_guarded_witness:
  "handleResize \<lparr>scrollTop = 0, scrollHeight = 0, clientHeight = 0, offsetHeight = 0\<rparr>
     300 initial_state = initial_state\<lparr>thumbHeight := NaN\<rparr>
   \<and> handleThumbPosition initial_state
     \<lparr>contentRef =
        Some \<lparr>scrollTop = 0, scrollHeight = 0, clientHeight = 0, offsetHeight = 0\<rparr>,
      scrollTrackRef = Some \<lparr>track_clientHeight = 300\<rparr>,
      scrollThumbRef = Some ThumbEl\<rparr>
   = [SetThumbStyleTop NaN]"
  using unmeasured_geometry_not_guarded
    [of "\<lparr>scrollTop = 0, scrollHeight = 0, clientHeight = 0, offsetHeight = 0\<rparr>"
        300 initial_state
        "\<lparr>contentRef =
            Some \<lparr>scrollTop = 0, scrollHeight = 0, clientHeight = 0, offsetHeight = 0\<rparr>,
          scrollTrackRef = Some \<lparr>track_clientHeight = 300\<rparr>,
          scrollThumbRef = Some ThumbEl\<rparr>"
        ThumbEl "\<lparr>track_clientHeight = 300\<rparr>" initial_state]
  by simp

text \<open>
  A content that is not laid out (all extents \<open>0\<close>): the resize replaces the thumb height
  \<open>20\<close> by \<^verbatim>\<open>NaN\<close>, and the scroll handler does not return early.
\<close>

theorem unmeasured_geometry_overwrites_thumb:
  "thumbHeight
     (handleResize \<lparr>scrollTop = 0, scrollHeight = 0, clientHeight = 0, offsetHeight = 0\<rparr>
        300 initial_state) = NaN
   \<and> handleResize \<lparr>scrollTop = 0, scrollHeight = 0, clientHeight = 0, offsetHeight = 0\<rparr>
        300 initial_state \<noteq> initial_state
   \<and> handleThumbPosition initial_state
     \<lparr>contentRef =
        Some \<lparr>scrollTop = 0, scrollHeight = 0, clientHeight = 0, offsetHeight = 0\<rparr>,
      scrollTrackRef = Some \<lparr>track_clientHeight = 300\<rparr>,
      scrollThumbRef = Some ThumbEl\<rparr>
   \<noteq> []"
  by (simp add: handleResize_def handleThumbPosition_def initial_state_def)


section \<open>Thumb sizing\<close>



end
